theory Spec2Isabelle
  imports Main "HOL-Library.Char_ord" "HOL-Library.List_Lexorder" "HOL-Library.Multiset"
begin

section \<open>The user repository and the file authentication service of laba5_OOP.py\<close>

text \<open>
  The development embeds \<^verbatim>\<open>JsonDataRepository\<close>, \<^verbatim>\<open>UserRepository\<close> and
  \<^verbatim>\<open>FileAuthService\<close> of \<^verbatim>\<open>src/laba5_OOP.py\<close>. The only entity class the
  repository is instantiated with is \<^verbatim>\<open>User\<close>, so \<^verbatim>\<open>data_class\<close> is \<^verbatim>\<open>User\<close>.

  Modelling decisions:
  \<^item> A \<^verbatim>\<open>User\<close> object is the record \<open>user\<close>. Python does not enforce the annotation
    \<^verbatim>\<open>id: int\<close>, and \<^verbatim>\<open>User(**item)\<close> of a stored record whose id is \<^verbatim>\<open>null\<close> has
    \<^verbatim>\<open>id = None\<close>, so the field is an \<open>int option\<close>.
  \<^item> A stored JSON object is the record \<open>user_dict\<close>, one selector per key, named after
    the \<^verbatim>\<open>item.get('key')\<close> that reads it. The stored objects are those that
    \<^verbatim>\<open>User(**item)\<close> accepts; ids are integers or \<^verbatim>\<open>null\<close> (floating point ids are
    outside the model); names, logins and passwords are strings.
  \<^item> The users file is \<open>Absent\<close>, \<open>Corrupt\<close> (not valid JSON) or \<open>Content\<close> with the
    decoded list. Writing is assumed to succeed.
  \<^item> The session file is absent, unreadable by pickle, or holds the dictionary
    \<^verbatim>\<open>{'user_id': ...}\<close>.
  \<^item> A method that mutates its argument or a file returns the new values.
  \<^item> Exceptions are values of \<open>error\<close>. Console output is modelled for
    \<^verbatim>\<open>update\<close> only, whose outcome is visible to the caller through nothing else.
\<close>

subsection \<open>Data\<close>

record user =
  uid :: "int option"
  name :: string
  login :: string
  password :: string
  email :: "string option"
  address :: "string option"

record user_dict =
  get_id :: "int option"
  get_name :: string
  get_login :: string
  get_password :: string
  get_email :: "string option"
  get_address :: "string option"

datatype json_file = Absent | Corrupt | Content "user_dict list"

datatype session_file = NoSessionFile | BadSessionFile | SessionData "int option"

datatype error = ValueError | TypeError

datatype notice = Updated "int option" | UpdatedByLogin string "int option" "int option"
  | RecordNotFound "int option" | UseAddInstead | UserNotFound "int option" string

text \<open>\<^verbatim>\<open>data_class(**item)\<close> with \<^verbatim>\<open>data_class = User\<close>.\<close>

definition data_class :: "user_dict \<Rightarrow> user" where
  "data_class item = \<lparr>uid = get_id item, name = get_name item, login = get_login item,
     password = get_password item, email = get_email item, address = get_address item\<rparr>"

text \<open>\<^verbatim>\<open>_object_to_dict\<close>: the public attributes of the object, by name.\<close>

definition object_to_dict :: "user \<Rightarrow> user_dict" where
  "object_to_dict obj = \<lparr>get_id = uid obj, get_name = name obj, get_login = login obj,
     get_password = password obj, get_email = email obj, get_address = address obj\<rparr>"

subsection \<open>Reading and writing the users file\<close>

definition read_raw_data :: "json_file \<Rightarrow> user_dict list" where
  "read_raw_data f = (case f of Content d \<Rightarrow> d | _ \<Rightarrow> [])"

definition read_data :: "json_file \<Rightarrow> user_dict list" where
  "read_data f = read_raw_data f"

text \<open>\<^verbatim>\<open>_write_data\<close>; \<^verbatim>\<open>sorted\<close> is stable, as \<open>sort_key\<close> is.\<close>

definition write_data :: "(user \<Rightarrow> 'k::linorder) option \<Rightarrow> user_dict list \<Rightarrow> json_file" where
  "write_data skey data =
     (case skey of
        None \<Rightarrow> Content data
      | Some k \<Rightarrow> Content (map object_to_dict (sort_key k (map data_class data))))"

definition ensure_file_exists :: "json_file \<Rightarrow> json_file" where
  "ensure_file_exists f = (case f of Absent \<Rightarrow> Content [] | _ \<Rightarrow> f)"

subsection \<open>Identity repair\<close>

text \<open>\<^verbatim>\<open>max(xs, default=d)\<close> on integers.\<close>

definition max_default :: "int list \<Rightarrow> int \<Rightarrow> int" where
  "max_default xs d = (case xs of [] \<Rightarrow> d | x # r \<Rightarrow> fold max r x)"

text \<open>The generator \<^verbatim>\<open>valid_ids\<close>: the ids that are not \<^verbatim>\<open>None\<close>.\<close>

definition valid_ids :: "user_dict list \<Rightarrow> int list" where
  "valid_ids data = concat (map (\<lambda>item. case get_id item of None \<Rightarrow> [] | Some i \<Rightarrow> [i]) data)"

text \<open>The \<^verbatim>\<open>for item in data\<close> loop of \<^verbatim>\<open>_fix_duplicate_ids\<close>, with its two locals.\<close>

fun fix_loop :: "user_dict list \<Rightarrow> int set \<Rightarrow> int \<Rightarrow> user_dict list" where
  "fix_loop [] seen_ids next_id = []"
| "fix_loop (item # rest) seen_ids next_id =
     (case get_id item of
        None \<Rightarrow> item\<lparr>get_id := Some next_id\<rparr> # fix_loop rest seen_ids (next_id + 1)
      | Some item_id \<Rightarrow>
          if item_id \<le> 0 then
            item\<lparr>get_id := Some next_id\<rparr> # fix_loop rest seen_ids (next_id + 1)
          else if item_id \<in> seen_ids then
            item\<lparr>get_id := Some next_id\<rparr> # fix_loop rest seen_ids (next_id + 1)
          else item # fix_loop rest (insert item_id seen_ids) next_id)"

definition fix_duplicate_ids :: "user_dict list \<Rightarrow> user_dict list" where
  "fix_duplicate_ids data =
     (if data = [] then data
      else fix_loop data {} (max_default (valid_ids data) 0 + 1))"

definition validate_and_fix_data_on_load ::
    "(user \<Rightarrow> 'k::linorder) option \<Rightarrow> json_file \<Rightarrow> json_file" where
  "validate_and_fix_data_on_load skey f =
     (let data = read_raw_data f; fixed_data = fix_duplicate_ids data
      in if fixed_data \<noteq> data then write_data skey fixed_data else f)"

text \<open>\<^verbatim>\<open>JsonDataRepository.__init__\<close>: the file after construction.\<close>

definition init_repository :: "(user \<Rightarrow> 'k::linorder) option \<Rightarrow> json_file \<Rightarrow> json_file" where
  "init_repository skey f = validate_and_fix_data_on_load skey (ensure_file_exists f)"

subsection \<open>The generic repository\<close>

text \<open>\<^verbatim>\<open>get_all\<close> returns the file it leaves behind and the list of objects.\<close>

definition get_all :: "json_file \<Rightarrow> json_file \<times> user list" where
  "get_all f = (let data = read_data f in (f, map data_class data))"

definition get_by_id :: "json_file \<Rightarrow> int option \<Rightarrow> user option" where
  "get_by_id f i =
     (let data = read_data f
      in map_option data_class (find (\<lambda>item. get_id item = i) data))"

text \<open>
  \<^verbatim>\<open>max(existing_ids, default=0) + 1\<close> in \<^verbatim>\<open>add\<close>, where the set may hold
  \<^verbatim>\<open>None\<close>: comparing \<^verbatim>\<open>None\<close> with an integer, or adding one to it, raises TypeError.
\<close>

definition next_free_id :: "int option list \<Rightarrow> error + int" where
  "next_free_id existing_ids =
     (if None \<in> set existing_ids then Inl TypeError
      else Inr (max_default (map the existing_ids) 0 + 1))"

text \<open>\<^verbatim>\<open>add\<close> returns the file and the caller's object, whose id it may have set.\<close>

definition add ::
    "(user \<Rightarrow> 'k::linorder) option \<Rightarrow> json_file \<Rightarrow> user \<Rightarrow> error + (json_file \<times> user)" where
  "add skey f item =
     (let data = read_data f; existing_ids = map get_id data
      in if uid item \<in> set existing_ids then
           (case next_free_id existing_ids of
              Inl e \<Rightarrow> Inl e
            | Inr next_id \<Rightarrow>
                let item' = item\<lparr>uid := Some next_id\<rparr>
                in Inr (write_data skey (data @ [object_to_dict item']), item'))
         else Inr (write_data skey (data @ [object_to_dict item]), item))"

text \<open>
  The loop \<^verbatim>\<open>for i, record in enumerate(data)\<close> of \<^verbatim>\<open>update\<close>: replace the first
  record whose id is the item's and stop; the flag is \<^verbatim>\<open>updated\<close>.
\<close>

fun update_by_id :: "user_dict list \<Rightarrow> user \<Rightarrow> user_dict list \<times> bool" where
  "update_by_id [] item = ([], False)"
| "update_by_id (record # rest) item =
     (if get_id record = uid item then (object_to_dict item # rest, True)
      else (let (rest', updated) = update_by_id rest item in (record # rest', updated)))"

definition update ::
    "(user \<Rightarrow> 'k::linorder) option \<Rightarrow> json_file \<Rightarrow> user \<Rightarrow> json_file \<times> notice list" where
  "update skey f item =
     (let (data, updated) = update_by_id (read_data f) item
      in if \<not> updated then (f, [RecordNotFound (uid item), UseAddInstead])
         else (write_data skey data, [Updated (uid item)]))"

text \<open>
  \<^verbatim>\<open>delete\<close> returns the file it leaves behind and the exception it raised, if any
  (\<^verbatim>\<open>raise ValueError\<close> comes before the write).
\<close>

definition delete ::
    "(user \<Rightarrow> 'k::linorder) option \<Rightarrow> json_file \<Rightarrow> user \<Rightarrow> json_file \<times> error option" where
  "delete skey f item =
     (let data = read_data f;
          new_data = filter (\<lambda>record. get_id record \<noteq> uid item) data
      in if length new_data = length data then (f, Some ValueError)
         else (write_data skey new_data, None))"

subsection \<open>The user repository\<close>

text \<open>\<^verbatim>\<open>UserRepository\<close> passes \<^verbatim>\<open>sort_key=lambda u: u.name\<close>.\<close>

definition user_sort_key :: "(user \<Rightarrow> string) option" where
  "user_sort_key = Some name"

definition get_by_login :: "json_file \<Rightarrow> string \<Rightarrow> user option" where
  "get_by_login f l =
     (let data = read_data f
      in map_option data_class (find (\<lambda>item. get_login item = l) data))"

text \<open>
  The second loop of \<^verbatim>\<open>UserRepository.update\<close>: the first record with the item's login
  is replaced by the item, after the item took that record's id. The result holds the
  mutated item when a record was found.
\<close>

fun update_by_login :: "user_dict list \<Rightarrow> user \<Rightarrow> user_dict list \<times> user option" where
  "update_by_login [] item = ([], None)"
| "update_by_login (record # rest) item =
     (if get_login record = login item then
        (let old_id = get_id record; item' = item\<lparr>uid := old_id\<rparr>
         in (object_to_dict item' # rest, Some item'))
      else (let (rest', found) = update_by_login rest item in (record # rest', found)))"

text \<open>\<^verbatim>\<open>UserRepository.update\<close> returns the file, the caller's object and the notices.\<close>

definition user_update :: "json_file \<Rightarrow> user \<Rightarrow> json_file \<times> user \<times> notice list" where
  "user_update f item =
     (let (data, updated) = update_by_id (read_data f) item
      in if updated then (write_data user_sort_key data, item, [Updated (uid item)])
         else (case update_by_login data item of
                 (data', Some item') \<Rightarrow>
                   (write_data user_sort_key data', item',
                    [UpdatedByLogin (login item) (uid item) (uid item')])
               | (data', None) \<Rightarrow> (f, item, [UserNotFound (uid item) (login item)])))"

subsection \<open>The authentication service\<close>

text \<open>
  The service object holds \<^verbatim>\<open>_current_user\<close>; the users file and the session file are
  passed to each method, which returns what it changed.
\<close>

text \<open>\<^verbatim>\<open>if user_id:\<close> is false for \<^verbatim>\<open>None\<close> and for \<^verbatim>\<open>0\<close>.\<close>

definition load_session :: "json_file \<Rightarrow> session_file \<Rightarrow> user option \<Rightarrow> user option" where
  "load_session f sf current_user =
     (case sf of
        SessionData user_id \<Rightarrow>
          (case user_id of
             None \<Rightarrow> current_user
           | Some n \<Rightarrow>
               if n = 0 then current_user
               else (case get_by_id f (Some n) of
                       None \<Rightarrow> current_user
                     | Some u \<Rightarrow> Some u))
      | _ \<Rightarrow> current_user)"

definition save_session :: "user option \<Rightarrow> session_file" where
  "save_session current_user =
     SessionData (case current_user of None \<Rightarrow> None | Some u \<Rightarrow> uid u)"

definition clear_session :: "session_file \<Rightarrow> session_file" where
  "clear_session sf = NoSessionFile"

text \<open>\<^verbatim>\<open>FileAuthService.__init__\<close>: \<^verbatim>\<open>_current_user\<close> after construction.\<close>

definition init_auth :: "json_file \<Rightarrow> session_file \<Rightarrow> user option" where
  "init_auth f sf = load_session f sf None"

definition is_authorized :: "user option \<Rightarrow> bool" where
  "is_authorized current_user = (current_user \<noteq> None)"

text \<open>\<^verbatim>\<open>sign_in\<close> returns its result, \<^verbatim>\<open>_current_user\<close> and the session file.\<close>

definition sign_in ::
    "json_file \<Rightarrow> session_file \<Rightarrow> user option \<Rightarrow> string \<Rightarrow> string
      \<Rightarrow> bool \<times> user option \<times> session_file" where
  "sign_in f sf current_user l pw =
     (case get_by_login f l of
        None \<Rightarrow> (False, current_user, sf)
      | Some u \<Rightarrow>
          if password u \<noteq> pw then (False, current_user, sf)
          else (True, Some u, save_session (Some u)))"

definition sign_out :: "session_file \<Rightarrow> user option \<Rightarrow> user option \<times> session_file" where
  "sign_out sf current_user = (None, clear_session sf)"

section \<open>Auxiliary facts\<close>

subsection \<open>Objects and stored records\<close>

lemma data_class_object_to_dict [simp]: "data_class (object_to_dict u) = u"
  by (simp add: data_class_def object_to_dict_def)

lemma object_to_dict_data_class [simp]: "object_to_dict (data_class d) = d"
  by (simp add: data_class_def object_to_dict_def)

lemma get_id_object_to_dict [simp]: "get_id (object_to_dict u) = uid u"
  by (simp add: object_to_dict_def)

lemma uid_data_class [simp]: "uid (data_class d) = get_id d"
  by (simp add: data_class_def)

lemma object_to_dict_comp_data_class: "object_to_dict \<circ> data_class = id"
  by (rule ext) simp

subsection \<open>What a write leaves in the file\<close>

lemma insort_key_map:
  "insort_key k (f x) (map f xs) = map f (insort_key (\<lambda>y. k (f y)) x xs)"
  by (induction xs) simp_all

lemma sort_key_map: "sort_key k (map f xs) = map f (sort_key (\<lambda>y. k (f y)) xs)"
  by (induction xs) (simp_all add: insort_key_map)

lemma write_data_Some:
  "write_data (Some k) data = Content (sort_key (\<lambda>item. k (data_class item)) data)"
  by (simp add: write_data_def sort_key_map object_to_dict_comp_data_class)

lemma write_data_None: "write_data None data = Content data"
  by (simp add: write_data_def)

lemma read_data_Content: "read_data (Content d) = d"
  by (simp add: read_data_def read_raw_data_def)

lemma mset_read_write_data: "mset (read_data (write_data skey data)) = mset data"
  by (cases skey) (simp_all add: write_data_Some write_data_None read_data_Content)

lemma set_read_write_data: "set (read_data (write_data skey data)) = set data"
  by (cases skey) (simp_all add: write_data_Some write_data_None read_data_Content)

lemma length_read_write_data: "length (read_data (write_data skey data)) = length data"
  by (cases skey) (simp_all add: write_data_Some write_data_None read_data_Content)

lemma distinct_ids_mset:
  assumes "mset xs = mset ys"
  shows "distinct (map get_id xs) = distinct (map get_id ys)"
proof -
  have "mset (map get_id xs) = image_mset get_id (mset xs)"
    by (rule mset_map)
  also have "\<dots> = image_mset get_id (mset ys)"
    by (simp only: assms)
  also have "\<dots> = mset (map get_id ys)"
    by (rule mset_map [symmetric])
  finally show ?thesis
    by (rule mset_eq_imp_distinct_iff)
qed

lemma distinct_ids_write_data:
  "distinct (map get_id (read_data (write_data skey data))) = distinct (map get_id data)"
  by (rule distinct_ids_mset) (rule mset_read_write_data)

subsection \<open>Searching a list and taking a maximum\<close>

lemma find_unique:
  assumes "x \<in> set xs" and "P x" and "\<forall>y\<in>set xs. P y \<longrightarrow> y = x"
  shows "find P xs = Some x"
proof -
  from assms(1,2) have "find P xs \<noteq> None"
    by (auto simp only: find_None_iff)
  then obtain y where y: "find P xs = Some y"
    by blast
  then have "P y" and "y \<in> set xs"
    by (simp_all only: find_Some_iff) (blast, metis nth_mem)
  with assms(3) have "y = x"
    by blast
  with y show ?thesis
    by simp
qed

lemma max_default_ge:
  assumes "x \<in> set xs"
  shows "x \<le> max_default xs d"
proof (cases xs)
  case Nil
  with assms show ?thesis by simp
next
  case (Cons y ys)
  have "Max (set (y # ys)) = fold max ys y"
    by (rule Max.set_eq_fold)
  with Cons have "max_default xs d = Max (set xs)"
    by (simp add: max_default_def)
  with assms show ?thesis by simp
qed

subsection \<open>The loops of update and delete\<close>

lemma update_by_id_unknown:
  "uid item \<notin> set (map get_id data) \<Longrightarrow> update_by_id data item = (data, False)"
  by (induction data) auto

lemma length_filter_ids:
  "length (filter (\<lambda>record. get_id record \<noteq> i) data)
     + length (filter (\<lambda>record. get_id record = i) data) = length data"
  by (induction data) simp_all

lemma filter_ids_all: "i \<notin> set (map get_id data) \<Longrightarrow>
    filter (\<lambda>record. get_id record \<noteq> i) data = data"
  by (induction data) auto

lemma filter_ids_some: "i \<in> set (map get_id data) \<Longrightarrow>
    0 < length (filter (\<lambda>record. get_id record = i) data)"
  by (induction data) auto

lemma filter_ids_distinct: "distinct (map get_id data) \<Longrightarrow> i \<in> set (map get_id data) \<Longrightarrow>
    length (filter (\<lambda>record. get_id record = i) data) = 1"
  by (induction data) (auto simp: filter_empty_conv image_iff)

subsection \<open>The ids that leave the repair loop\<close>

lemma valid_ids_Cons_Some [simp]:
  "get_id item = Some i \<Longrightarrow> valid_ids (item # rest) = i # valid_ids rest"
  by (simp add: valid_ids_def)

lemma valid_ids_Cons_None [simp]:
  "get_id item = None \<Longrightarrow> valid_ids (item # rest) = valid_ids rest"
  by (simp add: valid_ids_def)

lemma valid_ids_Nil [simp]: "valid_ids [] = []"
  by (simp add: valid_ids_def)

lemma set_valid_ids: "i \<in> set (valid_ids data) \<longleftrightarrow> Some i \<in> set (map get_id data)"
proof (induction data)
  case Nil
  show ?case by simp
next
  case (Cons item rest)
  then show ?case by (cases "get_id item") auto
qed

text \<open>Every id that leaves the loop is an integer: one kept or one freshly drawn.\<close>

lemma fix_loop_ids:
  assumes "r \<in> set (fix_loop data seen_ids next_id)"
  shows "\<exists>i. get_id r = Some i \<and>
           (i \<in> set (valid_ids data) \<and> i \<notin> seen_ids \<and> 0 < i \<or> next_id \<le> i)"
  using assms
proof (induction data arbitrary: seen_ids next_id)
  case Nil
  then show ?case by simp
next
  case (Cons item rest)
  show ?case
  proof (cases "get_id item")
    case None
    with Cons.prems have "r = item\<lparr>get_id := Some next_id\<rparr>
        \<or> r \<in> set (fix_loop rest seen_ids (next_id + 1))"
      by simp
    then show ?thesis
    proof
      assume "r = item\<lparr>get_id := Some next_id\<rparr>"
      then show ?thesis by simp
    next
      assume "r \<in> set (fix_loop rest seen_ids (next_id + 1))"
      from Cons.IH [OF this] None show ?thesis by fastforce
    qed
  next
    case (Some item_id)
    show ?thesis
    proof (cases "item_id \<le> 0 \<or> item_id \<in> seen_ids")
      case True
      with Some Cons.prems have "r = item\<lparr>get_id := Some next_id\<rparr>
          \<or> r \<in> set (fix_loop rest seen_ids (next_id + 1))"
        by (auto split: if_splits)
      then show ?thesis
      proof
        assume "r = item\<lparr>get_id := Some next_id\<rparr>"
        then show ?thesis by simp
      next
        assume "r \<in> set (fix_loop rest seen_ids (next_id + 1))"
        from Cons.IH [OF this] Some show ?thesis by fastforce
      qed
    next
      case False
      with Some Cons.prems have "r = item
          \<or> r \<in> set (fix_loop rest (insert item_id seen_ids) next_id)"
        by (auto split: if_splits)
      then show ?thesis
      proof
        assume "r = item"
        with Some False show ?thesis by simp
      next
        assume "r \<in> set (fix_loop rest (insert item_id seen_ids) next_id)"
        from Cons.IH [OF this] Some show ?thesis by fastforce
      qed
    qed
  qed
qed

lemma fix_loop_distinct:
  assumes "\<forall>i\<in>set (valid_ids data). i < next_id"
  shows "distinct (map get_id (fix_loop data seen_ids next_id))"
  using assms
proof (induction data arbitrary: seen_ids next_id)
  case Nil
  show ?case by simp
next
  case (Cons item rest)
  have below: "\<forall>i\<in>set (valid_ids rest). i < next_id"
    using Cons.prems by (cases "get_id item") simp_all
  have fresh: "Some next_id \<notin> set (map get_id (fix_loop rest seen_ids (next_id + 1)))"
  proof
    assume "Some next_id \<in> set (map get_id (fix_loop rest seen_ids (next_id + 1)))"
    then obtain r where r: "r \<in> set (fix_loop rest seen_ids (next_id + 1))"
      and "get_id r = Some next_id"
      by auto
    with fix_loop_ids [OF r] have "next_id \<in> set (valid_ids rest) \<or> next_id + 1 \<le> next_id"
      by auto
    with below show False by auto
  qed
  have tail: "distinct (map get_id (fix_loop rest seen_ids (next_id + 1)))"
    using below by (intro Cons.IH) auto
  show ?case
  proof (cases "get_id item")
    case None
    with fresh tail show ?thesis by simp
  next
    case (Some item_id)
    show ?thesis
    proof (cases "item_id \<le> 0 \<or> item_id \<in> seen_ids")
      case True
      with Some fresh tail show ?thesis by auto
    next
      case False
      have kept: "Some item_id \<notin> set (map get_id (fix_loop rest (insert item_id seen_ids) next_id))"
      proof
        assume "Some item_id \<in> set (map get_id (fix_loop rest (insert item_id seen_ids) next_id))"
        then obtain r where r: "r \<in> set (fix_loop rest (insert item_id seen_ids) next_id)"
          and "get_id r = Some item_id"
          by auto
        with fix_loop_ids [OF r] have "next_id \<le> item_id"
          by auto
        moreover have "item_id < next_id"
          using Cons.prems Some by simp
        ultimately show False by simp
      qed
      have "distinct (map get_id (fix_loop rest (insert item_id seen_ids) next_id))"
        using below by (rule Cons.IH)
      with Some False kept show ?thesis by simp
    qed
  qed
qed

lemma max_default_valid_ids_above:
  "\<forall>i\<in>set (valid_ids data). i < max_default (valid_ids data) 0 + 1"
  using max_default_ge [of _ "valid_ids data" 0] by fastforce

lemma fix_duplicate_ids_distinct: "distinct (map get_id (fix_duplicate_ids data))"
  by (simp add: fix_duplicate_ids_def fix_loop_distinct [OF max_default_valid_ids_above])

lemma fix_duplicate_ids_no_None: "None \<notin> set (map get_id (fix_duplicate_ids data))"
proof
  assume "None \<in> set (map get_id (fix_duplicate_ids data))"
  then obtain r where "r \<in> set (fix_duplicate_ids data)" and none: "get_id r = None"
    by auto
  then have "data \<noteq> []" and "r \<in> set (fix_loop data {} (max_default (valid_ids data) 0 + 1))"
    by (auto simp: fix_duplicate_ids_def split: if_splits)
  from fix_loop_ids [OF this(2)] none show False
    by auto
qed

text \<open>The fresh ids are positive unless every integer id in the file is negative.\<close>

lemma fix_duplicate_ids_positive:
  assumes "valid_ids data = [] \<or> (\<exists>i\<in>set (valid_ids data). 0 \<le> i)"
    and "r \<in> set (fix_duplicate_ids data)"
  shows "\<exists>i. get_id r = Some i \<and> 0 < i"
proof -
  let ?next_id = "max_default (valid_ids data) 0 + 1"
  from assms(1) have "0 < ?next_id"
  proof
    assume "valid_ids data = []"
    then show ?thesis by (simp add: max_default_def)
  next
    assume "\<exists>i\<in>set (valid_ids data). 0 \<le> i"
    then obtain i where "i \<in> set (valid_ids data)" and "0 \<le> i"
      by blast
    with max_default_ge [of i "valid_ids data" 0] show ?thesis
      by simp
  qed
  moreover from assms(2) have "r \<in> set (fix_loop data {} ?next_id)"
    by (auto simp: fix_duplicate_ids_def split: if_splits)
  from fix_loop_ids [OF this] obtain i where "get_id r = Some i" and "0 < i \<or> ?next_id \<le> i"
    by blast
  ultimately show ?thesis
    by auto
qed

subsection \<open>The file after construction\<close>

lemma init_repository_ids:
  "distinct (map get_id (read_data (init_repository skey f0)))
   \<and> None \<notin> set (map get_id (read_data (init_repository skey f0)))"
proof -
  let ?f1 = "ensure_file_exists f0"
  let ?data = "read_raw_data ?f1"
  let ?fixed = "fix_duplicate_ids ?data"
  show ?thesis
  proof (cases "?fixed = ?data")
    case True
    then have "init_repository skey f0 = ?f1"
      by (simp add: init_repository_def validate_and_fix_data_on_load_def)
    moreover have "distinct (map get_id ?fixed)" and "None \<notin> set (map get_id ?fixed)"
      by (rule fix_duplicate_ids_distinct, rule fix_duplicate_ids_no_None)
    ultimately show ?thesis
      using True by (simp add: read_data_def)
  next
    case False
    then have "init_repository skey f0 = write_data skey ?fixed"
      by (simp add: init_repository_def validate_and_fix_data_on_load_def)
    moreover have "distinct (map get_id ?fixed)" and "None \<notin> set (map get_id ?fixed)"
      by (rule fix_duplicate_ids_distinct, rule fix_duplicate_ids_no_None)
    ultimately show ?thesis
      by (simp add: distinct_ids_write_data set_read_write_data)
  qed
qed

subsection \<open>Lookups\<close>

lemma get_by_id_of_get_by_login:
  assumes "distinct (map get_id (read_data f))" and "get_by_login f l = Some u"
  shows "get_by_id f (uid u) = Some u"
proof -
  let ?data = "read_data f"
  from assms(2) obtain r where found: "find (\<lambda>item. get_login item = l) ?data = Some r"
    and u: "u = data_class r"
    by (auto simp: get_by_login_def)
  from found have mem: "r \<in> set ?data"
    by (auto simp only: find_Some_iff intro: nth_mem)
  from assms(1) have "inj_on get_id (set ?data)"
    by (simp add: distinct_map)
  with mem have "\<forall>y\<in>set ?data. get_id y = get_id r \<longrightarrow> y = r"
    by (auto dest: inj_onD)
  with mem have "find (\<lambda>item. get_id item = get_id r) ?data = Some r"
    by (intro find_unique) simp_all
  with u show ?thesis
    by (simp add: get_by_id_def)
qed

lemma get_by_id_after_append:
  assumes "uid it \<notin> set (map get_id data)"
  shows "get_by_id (write_data skey (data @ [object_to_dict it])) (uid it) = Some it"
proof -
  let ?d = "object_to_dict it"
  let ?stored = "read_data (write_data skey (data @ [?d]))"
  have mem: "?d \<in> set ?stored"
    by (simp add: set_read_write_data)
  have "\<forall>y\<in>set ?stored. get_id y = uid it \<longrightarrow> y = ?d"
    using assms by (auto simp: set_read_write_data image_iff)
  with mem have "find (\<lambda>item. get_id item = uid it) ?stored = Some ?d"
    by (intro find_unique) simp_all
  then show ?thesis
    by (simp add: get_by_id_def)
qed

subsection \<open>What add returns\<close>

lemma next_free_id_fresh:
  assumes "next_free_id ids = Inr n"
  shows "Some n \<notin> set ids" and "n = max_default (map the ids) 0 + 1"
proof -
  from assms have none: "None \<notin> set ids" and n: "n = max_default (map the ids) 0 + 1"
    by (auto simp: next_free_id_def split: if_splits)
  show "n = max_default (map the ids) 0 + 1"
    by (rule n)
  show "Some n \<notin> set ids"
  proof
    assume "Some n \<in> set ids"
    then have "the (Some n) \<in> set (map the ids)"
      by (simp only: set_map) (rule imageI)
    then have "n \<le> max_default (map the ids) 0"
      by (simp add: max_default_ge)
    with n show False by simp
  qed
qed

lemma add_result:
  assumes "add skey f item = Inr (f', item')"
  shows "f' = write_data skey (read_data f @ [object_to_dict item'])"
    and "uid item' \<notin> set (map get_id (read_data f))"
    and "item' = item\<lparr>uid := uid item'\<rparr>"
    and "uid item' =
           (if uid item \<in> set (map get_id (read_data f))
            then Some (max_default (map the (map get_id (read_data f))) 0 + 1)
            else uid item)"
proof -
  let ?ids = "map get_id (read_data f)"
  show "f' = write_data skey (read_data f @ [object_to_dict item'])"
    using assms by (auto simp: add_def Let_def split: if_splits sum.splits)
  show "item' = item\<lparr>uid := uid item'\<rparr>"
    using assms by (auto simp: add_def Let_def split: if_splits sum.splits)
  show "uid item' \<notin> set ?ids"
  proof (cases "uid item \<in> set ?ids")
    case False
    with assms show ?thesis
      by (auto simp: add_def Let_def)
  next
    case True
    with assms obtain n where n: "next_free_id ?ids = Inr n" and "item' = item\<lparr>uid := Some n\<rparr>"
      by (auto simp: add_def Let_def split: sum.splits)
    with next_free_id_fresh(1) [OF n] show ?thesis
      by simp
  qed
  show "uid item' = (if uid item \<in> set ?ids
        then Some (max_default (map the ?ids) 0 + 1) else uid item)"
  proof (cases "uid item \<in> set ?ids")
    case False
    with assms show ?thesis
      by (auto simp: add_def Let_def)
  next
    case True
    with assms obtain n where n: "next_free_id ?ids = Inr n" and "item' = item\<lparr>uid := Some n\<rparr>"
      by (auto simp: add_def Let_def split: sum.splits)
    with next_free_id_fresh(2) [OF n] True show ?thesis
      by simp
  qed
qed

lemma add_returns:
  assumes "uid item \<notin> set (map get_id (read_data f)) \<or> None \<notin> set (map get_id (read_data f))"
  shows "\<exists>f' item'. add skey f item = Inr (f', item')"
  using assms by (auto simp: add_def Let_def next_free_id_def)

subsection \<open>The login loop of the user repository\<close>

lemma update_by_login_first:
  assumes "\<forall>r\<in>set pre. get_login r \<noteq> login item" and "get_login record = login item"
  shows "update_by_login (pre @ record # post) item =
           (pre @ object_to_dict (item\<lparr>uid := get_id record\<rparr>) # post,
            Some (item\<lparr>uid := get_id record\<rparr>))"
  using assms by (induction pre) (simp_all add: Let_def)

lemma update_by_login_unknown:
  "\<forall>r\<in>set data. get_login r \<noteq> login item \<Longrightarrow> update_by_login data item = (data, None)"
  by (induction data) simp_all

section \<open>Identity repair\<close>

text \<open>
  Claim C1. The repair is to return unique, strictly positive ids, drawing the fresh ones
  from one above the largest valid positive id, or from 1 when there is none.
  \<^verbatim>\<open>_fix_duplicate_ids\<close> takes \<^verbatim>\<open>next_id\<close> from the largest id of any sign: on a file
  whose only record has id \<open>-5\<close> it starts at \<open>-4\<close>, and the record it repairs because
  its id is not positive leaves with the id \<open>-4\<close>, which is not positive either.
\<close>

theorem fix_duplicate_ids_negative_ids:
  "fix_duplicate_ids
     [\<lparr>get_id = Some (- 5), get_name = ''Ann'', get_login = ''ann'', get_password = ''pw'',
       get_email = None, get_address = None\<rparr>]
   = [\<lparr>get_id = Some (- 4), get_name = ''Ann'', get_login = ''ann'', get_password = ''pw'',
        get_email = None, get_address = None\<rparr>]"
  by (simp add: fix_duplicate_ids_def valid_ids_def max_default_def)

section \<open>Generic update\<close>

text \<open>
  Claim C2. When no stored record has the entity's id, \<^verbatim>\<open>JsonDataRepository.update\<close>
  leaves the file exactly as it was, whatever its state, and reports the failure by its
  two notices, that the record was not found and that \<^verbatim>\<open>add\<close> creates records; nothing
  is appended.
\<close>

theorem update_unknown_id_is_noop:
  assumes "uid item \<notin> set (map get_id (read_data f))"
  shows "update skey f item = (f, [RecordNotFound (uid item), UseAddInstead])"
  using assms by (simp add: update_def update_by_id_unknown)

theorem update_unknown_id_is_noop_witness:
  "update (None :: (user \<Rightarrow> string) option)
     (Content [\<lparr>get_id = Some 3, get_name = ''Ann'', get_login = ''ann'',
                get_password = ''pw'', get_email = None, get_address = None\<rparr>])
     \<lparr>uid = Some 5, name = ''Bob'', login = ''bob'', password = ''b'', email = None,
      address = None\<rparr>
   = (Content [\<lparr>get_id = Some 3, get_name = ''Ann'', get_login = ''ann'',
                get_password = ''pw'', get_email = None, get_address = None\<rparr>],
      [RecordNotFound (Some 5), UseAddInstead])"
  using update_unknown_id_is_noop
    [of "\<lparr>uid = Some 5, name = ''Bob'', login = ''bob'', password = ''b'', email = None,
          address = None\<rparr>"
        "Content [\<lparr>get_id = Some 3, get_name = ''Ann'', get_login = ''ann'',
                get_password = ''pw'', get_email = None, get_address = None\<rparr>]"
        "None :: (user \<Rightarrow> string) option"]
  by (simp add: read_data_Content)

section \<open>Delete\<close>

text \<open>
  Claim C3, as stated, at a file in which two records share the id 1: deleting an entity
  with id 1 leaves an empty file, so the record count drops by two, not by one.
\<close>

theorem delete_duplicated_id_counterexample:
  "delete (None :: (user \<Rightarrow> string) option)
     (Content [\<lparr>get_id = Some 1, get_name = ''Ann'', get_login = ''a'', get_password = ''pw'',
                get_email = None, get_address = None\<rparr>,
               \<lparr>get_id = Some 1, get_name = ''Bob'', get_login = ''b'', get_password = ''pw'',
                get_email = None, get_address = None\<rparr>])
     \<lparr>uid = Some 1, name = ''Ann'', login = ''a'', password = ''pw'', email = None,
      address = None\<rparr>
   = (Content [], None)
   \<and> length (read_data (Content [])) + 1 \<noteq>
     length (read_data
       (Content [\<lparr>get_id = Some 1, get_name = ''Ann'', get_login = ''a'', get_password = ''pw'',
                get_email = None, get_address = None\<rparr>,
               \<lparr>get_id = Some 1, get_name = ''Bob'', get_login = ''b'', get_password = ''pw'',
                get_email = None, get_address = None\<rparr>]))"
  by (simp add: delete_def read_data_Content write_data_None)

text \<open>
  Claim C3, amended. When no stored record has the entity's id, \<^verbatim>\<open>delete\<close> raises its
  not-found error (a \<^verbatim>\<open>ValueError\<close>) and leaves the file as it was. Otherwise it
  removes every record with that id: no record with the id is left, and the record count
  drops by the number of records that had it, which is at least one, and exactly one
  when the stored ids are pairwise distinct.
\<close>

theorem delete_removes_every_record_with_id:
  "(uid item \<notin> set (map get_id (read_data f)) \<longrightarrow>
      delete skey f item = (f, Some ValueError))
   \<and> (uid item \<in> set (map get_id (read_data f)) \<longrightarrow>
      (\<exists>f'. delete skey f item = (f', None)
         \<and> uid item \<notin> set (map get_id (read_data f'))
         \<and> length (read_data f')
             + length (filter (\<lambda>record. get_id record = uid item) (read_data f))
             = length (read_data f)
         \<and> 0 < length (filter (\<lambda>record. get_id record = uid item) (read_data f))
         \<and> (distinct (map get_id (read_data f)) \<longrightarrow>
               length (read_data f') + 1 = length (read_data f))))"
proof (intro conjI impI)
  assume "uid item \<notin> set (map get_id (read_data f))"
  then show "delete skey f item = (f, Some ValueError)"
    by (simp add: delete_def filter_ids_all)
next
  let ?data = "read_data f"
  let ?new = "filter (\<lambda>record. get_id record \<noteq> uid item) ?data"
  let ?f' = "write_data skey ?new"
  assume mem: "uid item \<in> set (map get_id ?data)"
  have sum: "length ?new + length (filter (\<lambda>record. get_id record = uid item) ?data)
      = length ?data"
    by (rule length_filter_ids)
  have pos: "0 < length (filter (\<lambda>record. get_id record = uid item) ?data)"
    using mem by (rule filter_ids_some)
  from sum pos have "length ?new \<noteq> length ?data"
    by arith
  then have del: "delete skey f item = (?f', None)"
    by (simp add: delete_def)
  have gone: "uid item \<notin> set (map get_id (read_data ?f'))"
    by (auto simp: set_read_write_data)
  have len: "length (read_data ?f')
      + length (filter (\<lambda>record. get_id record = uid item) ?data) = length ?data"
    using sum by (simp add: length_read_write_data)
  have one: "distinct (map get_id ?data) \<longrightarrow> length (read_data ?f') + 1 = length ?data"
  proof
    assume "distinct (map get_id ?data)"
    then have "length (filter (\<lambda>record. get_id record = uid item) ?data) = 1"
      using mem by (rule filter_ids_distinct)
    with len show "length (read_data ?f') + 1 = length ?data"
      by simp
  qed
  from del gone len pos one
  show "\<exists>f'. delete skey f item = (f', None)
         \<and> uid item \<notin> set (map get_id (read_data f'))
         \<and> length (read_data f')
             + length (filter (\<lambda>record. get_id record = uid item) (read_data f))
             = length (read_data f)
         \<and> 0 < length (filter (\<lambda>record. get_id record = uid item) (read_data f))
         \<and> (distinct (map get_id (read_data f)) \<longrightarrow>
               length (read_data f') + 1 = length (read_data f))"
    by blast
qed

theorem delete_removes_every_record_with_id_witness:
  "uid \<lparr>uid = Some 1, name = ''Ann'', login = ''a'', password = ''pw'', email = None,
        address = None\<rparr>
     \<in> set (map get_id (read_data
         (Content [\<lparr>get_id = Some 1, get_name = ''Ann'', get_login = ''a'',
                    get_password = ''pw'', get_email = None, get_address = None\<rparr>,
                   \<lparr>get_id = Some 2, get_name = ''Bob'', get_login = ''b'',
                    get_password = ''pw'', get_email = None, get_address = None\<rparr>])))
   \<and> distinct (map get_id (read_data
         (Content [\<lparr>get_id = Some 1, get_name = ''Ann'', get_login = ''a'',
                    get_password = ''pw'', get_email = None, get_address = None\<rparr>,
                   \<lparr>get_id = Some 2, get_name = ''Bob'', get_login = ''b'',
                    get_password = ''pw'', get_email = None, get_address = None\<rparr>])))
   \<and> (\<exists>f'. delete (None :: (user \<Rightarrow> string) option)
         (Content [\<lparr>get_id = Some 1, get_name = ''Ann'', get_login = ''a'',
                    get_password = ''pw'', get_email = None, get_address = None\<rparr>,
                   \<lparr>get_id = Some 2, get_name = ''Bob'', get_login = ''b'',
                    get_password = ''pw'', get_email = None, get_address = None\<rparr>])
         \<lparr>uid = Some 1, name = ''Ann'', login = ''a'', password = ''pw'', email = None,
          address = None\<rparr> = (f', None)
       \<and> length (read_data f') + 1 = 2)
   \<and> uid \<lparr>uid = Some 7, name = ''Ann'', login = ''a'', password = ''pw'', email = None,
        address = None\<rparr> \<notin> set (map get_id (read_data Corrupt))
   \<and> delete (None :: (user \<Rightarrow> string) option) Corrupt
         \<lparr>uid = Some 7, name = ''Ann'', login = ''a'', password = ''pw'', email = None,
          address = None\<rparr> = (Corrupt, Some ValueError)"
  using delete_removes_every_record_with_id
    [of "\<lparr>uid = Some 1, name = ''Ann'', login = ''a'', password = ''pw'', email = None,
          address = None\<rparr>"
        "Content [\<lparr>get_id = Some 1, get_name = ''Ann'', get_login = ''a'',
                    get_password = ''pw'', get_email = None, get_address = None\<rparr>,
                   \<lparr>get_id = Some 2, get_name = ''Bob'', get_login = ''b'',
                    get_password = ''pw'', get_email = None, get_address = None\<rparr>]"
        "None :: (user \<Rightarrow> string) option"]
    delete_removes_every_record_with_id
    [of "\<lparr>uid = Some 7, name = ''Ann'', login = ''a'', password = ''pw'', email = None,
          address = None\<rparr>" Corrupt "None :: (user \<Rightarrow> string) option"]
  by (auto simp add: read_data_def read_raw_data_def)

section \<open>Add\<close>

text \<open>
  Claim C5. No stored id is to be non-positive, and a caller's placeholder id such as 0
  is to be replaced on \<^verbatim>\<open>add\<close>. \<^verbatim>\<open>add\<close> assigns an id only when the entity's id is
  already stored: on an empty file the entity built by \<^verbatim>\<open>ConsoleService.input_user\<close>
  with \<^verbatim>\<open>id=0\<close> is written with the id 0, and the caller's object keeps it.
\<close>

theorem add_persists_placeholder_id:
  "add user_sort_key (Content [])
     \<lparr>uid = Some 0, name = ''Ann'', login = ''ann'', password = ''pw'',
      email = None, address = None\<rparr>
   = Inr (Content [\<lparr>get_id = Some 0, get_name = ''Ann'', get_login = ''ann'',
                    get_password = ''pw'', get_email = None, get_address = None\<rparr>],
          \<lparr>uid = Some 0, name = ''Ann'', login = ''ann'', password = ''pw'',
           email = None, address = None\<rparr>)"
  by (simp add: add_def read_data_Content write_data_Some user_sort_key_def object_to_dict_def)

text \<open>
  Claim C9. Whenever \<^verbatim>\<open>add\<close> returns, \<^verbatim>\<open>get_by_id\<close> with the id that the entity has
  after the call returns the entity, equal to the one added in every field but the id.
  \<^verbatim>\<open>add\<close> returns for every file and entity except when the entity's id is stored
  already and some stored id is \<^verbatim>\<open>null\<close>, where \<^verbatim>\<open>max\<close> raises TypeError.
\<close>

theorem add_then_get_by_id:
  assumes "uid item \<notin> set (map get_id (read_data f)) \<or> None \<notin> set (map get_id (read_data f))"
  shows "\<exists>f' item'. add skey f item = Inr (f', item')
           \<and> get_by_id f' (uid item') = Some item'
           \<and> item'\<lparr>uid := uid item\<rparr> = item"
proof -
  from add_returns [OF assms] obtain f' item' where a: "add skey f item = Inr (f', item')"
    by blast
  note r = add_result [OF a]
  from r(1,2) have "get_by_id f' (uid item') = Some item'"
    by (simp add: get_by_id_after_append)
  moreover from r(3) have "item'\<lparr>uid := uid item\<rparr> = item"
    by (metis user.surjective user.update_convs(1))
  ultimately show ?thesis
    using a by blast
qed

theorem add_then_get_by_id_witness:
  "None \<notin> set (map get_id (read_data
       (Content [\<lparr>get_id = Some 1, get_name = ''Ann'', get_login = ''a'',
                  get_password = ''pw'', get_email = None, get_address = None\<rparr>])))
   \<and> add user_sort_key
       (Content [\<lparr>get_id = Some 1, get_name = ''Ann'', get_login = ''a'',
                  get_password = ''pw'', get_email = None, get_address = None\<rparr>])
       \<lparr>uid = Some 1, name = ''Bob'', login = ''b'', password = ''pw'', email = None,
        address = None\<rparr>
     = Inr (Content [\<lparr>get_id = Some 1, get_name = ''Ann'', get_login = ''a'',
                      get_password = ''pw'', get_email = None, get_address = None\<rparr>,
                     \<lparr>get_id = Some 2, get_name = ''Bob'', get_login = ''b'',
                      get_password = ''pw'', get_email = None, get_address = None\<rparr>],
            \<lparr>uid = Some 2, name = ''Bob'', login = ''b'', password = ''pw'', email = None,
             address = None\<rparr>)
   \<and> get_by_id
       (Content [\<lparr>get_id = Some 1, get_name = ''Ann'', get_login = ''a'',
                  get_password = ''pw'', get_email = None, get_address = None\<rparr>,
                 \<lparr>get_id = Some 2, get_name = ''Bob'', get_login = ''b'',
                  get_password = ''pw'', get_email = None, get_address = None\<rparr>])
       (Some 2)
     = Some \<lparr>uid = Some 2, name = ''Bob'', login = ''b'', password = ''pw'', email = None,
             address = None\<rparr>"
proof -
  have h: "None \<notin> set (map get_id (read_data
       (Content [\<lparr>get_id = Some 1, get_name = ''Ann'', get_login = ''a'',
                  get_password = ''pw'', get_email = None, get_address = None\<rparr>])))"
    by (simp add: read_data_Content)
  have a: "add user_sort_key
       (Content [\<lparr>get_id = Some 1, get_name = ''Ann'', get_login = ''a'',
                  get_password = ''pw'', get_email = None, get_address = None\<rparr>])
       \<lparr>uid = Some 1, name = ''Bob'', login = ''b'', password = ''pw'', email = None,
        address = None\<rparr>
     = Inr (Content [\<lparr>get_id = Some 1, get_name = ''Ann'', get_login = ''a'',
                      get_password = ''pw'', get_email = None, get_address = None\<rparr>,
                     \<lparr>get_id = Some 2, get_name = ''Bob'', get_login = ''b'',
                      get_password = ''pw'', get_email = None, get_address = None\<rparr>],
            \<lparr>uid = Some 2, name = ''Bob'', login = ''b'', password = ''pw'', email = None,
             address = None\<rparr>)"
    by (simp add: add_def read_data_Content next_free_id_def max_default_def write_data_Some
        user_sort_key_def object_to_dict_def data_class_def)
  from add_then_get_by_id [OF disjI2, OF h, of user_sort_key
      "\<lparr>uid = Some 1, name = ''Bob'', login = ''b'', password = ''pw'', email = None,
        address = None\<rparr>"] h a
  show ?thesis
    by simp
qed

text \<open>
  Claim C10. \<^verbatim>\<open>add\<close> returns nothing; after it the caller's object differs from the
  one passed in at most in its id, the file holds the records it held and one more, the
  object's record, whose id is the object's id: the largest stored id plus one when the
  id passed in was stored already, and the id passed in otherwise.
\<close>

theorem add_sets_id_of_caller_object:
  assumes "add skey f item = Inr (f', item')"
  shows "item' = item\<lparr>uid := uid item'\<rparr>
     \<and> mset (read_data f') = mset (read_data f) + {#object_to_dict item'#}
     \<and> get_id (object_to_dict item') = uid item'
     \<and> uid item' =
           (if uid item \<in> set (map get_id (read_data f))
            then Some (max_default (map the (map get_id (read_data f))) 0 + 1)
            else uid item)"
proof -
  note r = add_result [OF assms]
  from r(1) have "mset (read_data f') = mset (read_data f) + {#object_to_dict item'#}"
    by (simp add: mset_read_write_data)
  with r(3,4) show ?thesis
    by simp
qed

theorem add_sets_id_of_caller_object_witness:
  "add (None :: (user \<Rightarrow> string) option)
       (Content [\<lparr>get_id = Some 4, get_name = ''Ann'', get_login = ''a'',
                  get_password = ''pw'', get_email = None, get_address = None\<rparr>])
       \<lparr>uid = Some 4, name = ''Bob'', login = ''b'', password = ''pw'', email = None,
        address = None\<rparr>
     = Inr (Content [\<lparr>get_id = Some 4, get_name = ''Ann'', get_login = ''a'',
                      get_password = ''pw'', get_email = None, get_address = None\<rparr>,
                     \<lparr>get_id = Some 5, get_name = ''Bob'', get_login = ''b'',
                      get_password = ''pw'', get_email = None, get_address = None\<rparr>],
            \<lparr>uid = Some 5, name = ''Bob'', login = ''b'', password = ''pw'', email = None,
             address = None\<rparr>)
   \<and> get_id (object_to_dict
        \<lparr>uid = Some 5, name = ''Bob'', login = ''b'', password = ''pw'', email = None,
         address = None\<rparr>)
     = uid \<lparr>uid = Some 5, name = ''Bob'', login = ''b'', password = ''pw'', email = None,
            address = None\<rparr>"
proof -
  have a: "add (None :: (user \<Rightarrow> string) option)
       (Content [\<lparr>get_id = Some 4, get_name = ''Ann'', get_login = ''a'',
                  get_password = ''pw'', get_email = None, get_address = None\<rparr>])
       \<lparr>uid = Some 4, name = ''Bob'', login = ''b'', password = ''pw'', email = None,
        address = None\<rparr>
     = Inr (Content [\<lparr>get_id = Some 4, get_name = ''Ann'', get_login = ''a'',
                      get_password = ''pw'', get_email = None, get_address = None\<rparr>,
                     \<lparr>get_id = Some 5, get_name = ''Bob'', get_login = ''b'',
                      get_password = ''pw'', get_email = None, get_address = None\<rparr>],
            \<lparr>uid = Some 5, name = ''Bob'', login = ''b'', password = ''pw'', email = None,
             address = None\<rparr>)"
    by (simp add: add_def read_data_Content next_free_id_def max_default_def write_data_None
        object_to_dict_def)
  from add_sets_id_of_caller_object [OF a] a show ?thesis
    by simp
qed

section \<open>Reading all records\<close>

text \<open>
  Claim C6, as stated, at a file edited to hold the id 1 twice: \<^verbatim>\<open>get_all\<close> returns two
  users with the id 1 and leaves the file as it is, although the repair would give the
  second record the id 2.
\<close>

theorem get_all_duplicated_ids_counterexample:
  "get_all (Content [\<lparr>get_id = Some 1, get_name = ''Ann'', get_login = ''a'',
                      get_password = ''pw'', get_email = None, get_address = None\<rparr>,
                     \<lparr>get_id = Some 1, get_name = ''Bob'', get_login = ''b'',
                      get_password = ''pw'', get_email = None, get_address = None\<rparr>])
   = (Content [\<lparr>get_id = Some 1, get_name = ''Ann'', get_login = ''a'',
                 get_password = ''pw'', get_email = None, get_address = None\<rparr>,
                \<lparr>get_id = Some 1, get_name = ''Bob'', get_login = ''b'',
                 get_password = ''pw'', get_email = None, get_address = None\<rparr>],
      [\<lparr>uid = Some 1, name = ''Ann'', login = ''a'', password = ''pw'', email = None,
        address = None\<rparr>,
       \<lparr>uid = Some 1, name = ''Bob'', login = ''b'', password = ''pw'', email = None,
        address = None\<rparr>])
   \<and> \<not> distinct (map uid
         [\<lparr>uid = Some 1, name = ''Ann'', login = ''a'', password = ''pw'', email = None,
           address = None\<rparr>,
          \<lparr>uid = Some 1, name = ''Bob'', login = ''b'', password = ''pw'', email = None,
           address = None\<rparr>])
   \<and> fix_duplicate_ids
         [\<lparr>get_id = Some 1, get_name = ''Ann'', get_login = ''a'',
           get_password = ''pw'', get_email = None, get_address = None\<rparr>,
          \<lparr>get_id = Some 1, get_name = ''Bob'', get_login = ''b'',
           get_password = ''pw'', get_email = None, get_address = None\<rparr>]
       = [\<lparr>get_id = Some 1, get_name = ''Ann'', get_login = ''a'',
           get_password = ''pw'', get_email = None, get_address = None\<rparr>,
          \<lparr>get_id = Some 2, get_name = ''Bob'', get_login = ''b'',
           get_password = ''pw'', get_email = None, get_address = None\<rparr>]"
  by (simp add: get_all_def read_data_Content data_class_def fix_duplicate_ids_def
      valid_ids_def max_default_def)

text \<open>
  Claim C6, amended. \<^verbatim>\<open>get_all\<close> reads the file and maps each record to an entity,
  in file order, without repairing and without writing: the file is the same afterwards.
  The repair runs when the repository is constructed, so on the file that construction
  leaves the ids that \<^verbatim>\<open>get_all\<close> returns are integers and pairwise distinct.
\<close>

theorem get_all_reads_without_repair:
  "fst (get_all f) = f
   \<and> map object_to_dict (snd (get_all f)) = read_raw_data f
   \<and> (f = init_repository skey f0 \<longrightarrow>
        distinct (map uid (snd (get_all f))) \<and> None \<notin> set (map uid (snd (get_all f))))"
proof (intro conjI impI)
  show "fst (get_all f) = f"
    by (simp add: get_all_def)
  show "map object_to_dict (snd (get_all f)) = read_raw_data f"
    by (simp add: get_all_def read_data_def object_to_dict_comp_data_class)
  have ids: "map uid (snd (get_all f)) = map get_id (read_data f)"
    by (simp add: get_all_def comp_def)
  assume "f = init_repository skey f0"
  with init_repository_ids [of skey f0] ids
  show "distinct (map uid (snd (get_all f)))" and "None \<notin> set (map uid (snd (get_all f)))"
    by simp_all
qed

theorem get_all_reads_without_repair_witness:
  "Content [\<lparr>get_id = Some 1, get_name = ''Ann'', get_login = ''a'',
             get_password = ''pw'', get_email = None, get_address = None\<rparr>,
            \<lparr>get_id = Some 2, get_name = ''Bob'', get_login = ''b'',
             get_password = ''pw'', get_email = None, get_address = None\<rparr>]
     = init_repository (None :: (user \<Rightarrow> string) option)
         (Content [\<lparr>get_id = Some 1, get_name = ''Ann'', get_login = ''a'',
                    get_password = ''pw'', get_email = None, get_address = None\<rparr>,
                   \<lparr>get_id = Some 1, get_name = ''Bob'', get_login = ''b'',
                    get_password = ''pw'', get_email = None, get_address = None\<rparr>])
   \<and> distinct (map uid (snd (get_all
         (Content [\<lparr>get_id = Some 1, get_name = ''Ann'', get_login = ''a'',
                    get_password = ''pw'', get_email = None, get_address = None\<rparr>,
                   \<lparr>get_id = Some 2, get_name = ''Bob'', get_login = ''b'',
                    get_password = ''pw'', get_email = None, get_address = None\<rparr>]))))"
proof -
  have h: "Content [\<lparr>get_id = Some 1, get_name = ''Ann'', get_login = ''a'',
             get_password = ''pw'', get_email = None, get_address = None\<rparr>,
            \<lparr>get_id = Some 2, get_name = ''Bob'', get_login = ''b'',
             get_password = ''pw'', get_email = None, get_address = None\<rparr>]
     = init_repository (None :: (user \<Rightarrow> string) option)
         (Content [\<lparr>get_id = Some 1, get_name = ''Ann'', get_login = ''a'',
                    get_password = ''pw'', get_email = None, get_address = None\<rparr>,
                   \<lparr>get_id = Some 1, get_name = ''Bob'', get_login = ''b'',
                    get_password = ''pw'', get_email = None, get_address = None\<rparr>])"
    by (simp add: init_repository_def validate_and_fix_data_on_load_def ensure_file_exists_def
        read_raw_data_def fix_duplicate_ids_def valid_ids_def max_default_def write_data_None)
  from h get_all_reads_without_repair
    [of "Content [\<lparr>get_id = Some 1, get_name = ''Ann'', get_login = ''a'',
             get_password = ''pw'', get_email = None, get_address = None\<rparr>,
            \<lparr>get_id = Some 2, get_name = ''Bob'', get_login = ''b'',
             get_password = ''pw'', get_email = None, get_address = None\<rparr>]"
        "None :: (user \<Rightarrow> string) option"
        "Content [\<lparr>get_id = Some 1, get_name = ''Ann'', get_login = ''a'',
                    get_password = ''pw'', get_email = None, get_address = None\<rparr>,
                   \<lparr>get_id = Some 1, get_name = ''Bob'', get_login = ''b'',
                    get_password = ''pw'', get_email = None, get_address = None\<rparr>]"]
  show ?thesis
    by blast
qed

section \<open>The login fallback of the user repository\<close>

text \<open>
  Claim C4. When no stored record has the user's id, \<^verbatim>\<open>UserRepository.update\<close> replaces
  the first record with the user's login (there is one whenever some record has that
  login) by the user's fields under the id that record had; the caller's object takes
  that id too. When no record has the login either, the file stays as it is and the
  outcome is the not-found notice, the file being the one the generic update leaves.
\<close>

theorem user_update_falls_back_to_login:
  assumes "uid item \<notin> set (map get_id (read_data f))"
  shows "(read_data f = pre @ record # post
            \<and> (\<forall>r\<in>set pre. get_login r \<noteq> login item) \<and> get_login record = login item
          \<longrightarrow> user_update f item =
               (write_data user_sort_key
                  (pre @ object_to_dict (item\<lparr>uid := get_id record\<rparr>) # post),
                item\<lparr>uid := get_id record\<rparr>,
                [UpdatedByLogin (login item) (uid item) (get_id record)]))
       \<and> ((\<exists>r\<in>set (read_data f). get_login r = login item)
          \<longrightarrow> (\<exists>pre record post. read_data f = pre @ record # post
                \<and> (\<forall>r\<in>set pre. get_login r \<noteq> login item)
                \<and> get_login record = login item))
       \<and> ((\<forall>r\<in>set (read_data f). get_login r \<noteq> login item)
          \<longrightarrow> user_update f item = (f, item, [UserNotFound (uid item) (login item)])
              \<and> fst (user_update f item) = fst (update user_sort_key f item))"
proof (intro conjI impI)
  {
    assume "\<exists>r\<in>set (read_data f). get_login r = login item"
    then obtain ys y zs where "read_data f = ys @ y # zs"
      and "get_login y = login item" and "\<forall>r\<in>set ys. \<not> get_login r = login item"
      by (rule split_list_first_propE)
    then show "\<exists>pre record post. read_data f = pre @ record # post
                \<and> (\<forall>r\<in>set pre. get_login r \<noteq> login item)
                \<and> get_login record = login item"
      by blast
  }
  have by_id: "update_by_id (read_data f) item = (read_data f, False)"
    using assms by (rule update_by_id_unknown)
  {
    assume split: "read_data f = pre @ record # post
            \<and> (\<forall>r\<in>set pre. get_login r \<noteq> login item) \<and> get_login record = login item"
    then have "update_by_login (read_data f) item =
           (pre @ object_to_dict (item\<lparr>uid := get_id record\<rparr>) # post,
            Some (item\<lparr>uid := get_id record\<rparr>))"
      by (simp add: update_by_login_first)
    with by_id show "user_update f item =
               (write_data user_sort_key
                  (pre @ object_to_dict (item\<lparr>uid := get_id record\<rparr>) # post),
                item\<lparr>uid := get_id record\<rparr>,
                [UpdatedByLogin (login item) (uid item) (get_id record)])"
      by (simp add: user_update_def)
  }
  {
    assume "\<forall>r\<in>set (read_data f). get_login r \<noteq> login item"
    then have "update_by_login (read_data f) item = (read_data f, None)"
      by (rule update_by_login_unknown)
    with by_id show "user_update f item = (f, item, [UserNotFound (uid item) (login item)])"
      by (simp add: user_update_def)
    then show "fst (user_update f item) = fst (update user_sort_key f item)"
      using by_id by (simp add: update_def)
  }
qed

theorem user_update_falls_back_to_login_witness:
  "uid \<lparr>uid = Some 5, name = ''New'', login = ''x'', password = ''new'',
         email = Some ''x@mail.com'', address = None\<rparr>
     \<notin> set (map get_id (read_data
         (Content [\<lparr>get_id = Some 3, get_name = ''Old'', get_login = ''x'',
                    get_password = ''old'', get_email = None, get_address = Some ''Minsk''\<rparr>])))
   \<and> user_update
       (Content [\<lparr>get_id = Some 3, get_name = ''Old'', get_login = ''x'',
                  get_password = ''old'', get_email = None, get_address = Some ''Minsk''\<rparr>])
       \<lparr>uid = Some 5, name = ''New'', login = ''x'', password = ''new'',
        email = Some ''x@mail.com'', address = None\<rparr>
     = (Content [\<lparr>get_id = Some 3, get_name = ''New'', get_login = ''x'',
                  get_password = ''new'', get_email = Some ''x@mail.com'',
                  get_address = None\<rparr>],
        \<lparr>uid = Some 3, name = ''New'', login = ''x'', password = ''new'',
         email = Some ''x@mail.com'', address = None\<rparr>,
        [UpdatedByLogin ''x'' (Some 5) (Some 3)])"
proof -
  have h: "uid \<lparr>uid = Some 5, name = ''New'', login = ''x'', password = ''new'',
         email = Some ''x@mail.com'', address = None\<rparr>
     \<notin> set (map get_id (read_data
         (Content [\<lparr>get_id = Some 3, get_name = ''Old'', get_login = ''x'',
                    get_password = ''old'', get_email = None, get_address = Some ''Minsk''\<rparr>])))"
    by (simp add: read_data_Content)
  from h user_update_falls_back_to_login
    [OF h, of "[]" "\<lparr>get_id = Some 3, get_name = ''Old'', get_login = ''x'',
                    get_password = ''old'', get_email = None, get_address = Some ''Minsk''\<rparr>" "[]"]
  show ?thesis
    by (simp add: read_data_Content write_data_Some user_sort_key_def object_to_dict_def)
qed

section \<open>Authentication\<close>

text \<open>
  Claim C7, as stated, at a service that is authenticated as ivan: a sign-in with ivan's
  login and a wrong password returns false and the service is still authenticated.
\<close>

theorem sign_in_failure_authenticated_counterexample:
  "sign_in
     (Content [\<lparr>get_id = Some 2, get_name = ''Ivan'', get_login = ''ivan'',
                get_password = ''12345'', get_email = None, get_address = None\<rparr>])
     (SessionData (Some 2))
     (Some \<lparr>uid = Some 2, name = ''Ivan'', login = ''ivan'', password = ''12345'',
            email = None, address = None\<rparr>)
     ''ivan'' ''wrong''
   = (False,
      Some \<lparr>uid = Some 2, name = ''Ivan'', login = ''ivan'', password = ''12345'',
            email = None, address = None\<rparr>,
      SessionData (Some 2))
   \<and> is_authorized
       (Some \<lparr>uid = Some 2, name = ''Ivan'', login = ''ivan'', password = ''12345'',
              email = None, address = None\<rparr>)"
  by (simp add: sign_in_def get_by_login_def read_data_Content data_class_def is_authorized_def)

text \<open>
  Claim C7, amended. A sign-in with a login that no stored record has, or with a password
  other than that of the first stored record with the login, returns false and changes
  neither the service's current user nor the session file: an anonymous service stays
  anonymous and an authenticated one stays authenticated.
\<close>

theorem sign_in_failure_keeps_state:
  assumes "get_by_login f l = None \<or> (\<exists>u. get_by_login f l = Some u \<and> password u \<noteq> pw)"
  shows "sign_in f sf current_user l pw = (False, current_user, sf)"
  using assms by (auto simp: sign_in_def)

theorem sign_in_failure_keeps_state_witness:
  "(\<exists>u. get_by_login
          (Content [\<lparr>get_id = Some 2, get_name = ''Ivan'', get_login = ''ivan'',
                     get_password = ''12345'', get_email = None, get_address = None\<rparr>])
          ''ivan'' = Some u \<and> password u \<noteq> ''wrong'')
   \<and> sign_in
       (Content [\<lparr>get_id = Some 2, get_name = ''Ivan'', get_login = ''ivan'',
                  get_password = ''12345'', get_email = None, get_address = None\<rparr>])
       NoSessionFile None ''ivan'' ''wrong'' = (False, None, NoSessionFile)
   \<and> \<not> is_authorized None"
proof -
  have h: "\<exists>u. get_by_login
          (Content [\<lparr>get_id = Some 2, get_name = ''Ivan'', get_login = ''ivan'',
                     get_password = ''12345'', get_email = None, get_address = None\<rparr>])
          ''ivan'' = Some u \<and> password u \<noteq> ''wrong''"
    by (simp add: get_by_login_def read_data_Content data_class_def)
  then have "get_by_login
          (Content [\<lparr>get_id = Some 2, get_name = ''Ivan'', get_login = ''ivan'',
                     get_password = ''12345'', get_email = None, get_address = None\<rparr>])
          ''ivan'' = None
      \<or> (\<exists>u. get_by_login
          (Content [\<lparr>get_id = Some 2, get_name = ''Ivan'', get_login = ''ivan'',
                     get_password = ''12345'', get_email = None, get_address = None\<rparr>])
          ''ivan'' = Some u \<and> password u \<noteq> ''wrong'')"
    by (rule disjI2)
  from sign_in_failure_keeps_state [OF this, of NoSessionFile None] h show ?thesis
    by (simp add: is_authorized_def)
qed

text \<open>
  Claim C8, as stated, at a file whose user has the id 0 (which \<^verbatim>\<open>add\<close> stores for a
  placeholder entity): the sign-in succeeds and writes the session, and a service
  constructed over that session is anonymous, because \<^verbatim>\<open>if user_id:\<close> is false for 0.
\<close>

theorem auth_round_trip_zero_id_counterexample:
  "sign_in
     (Content [\<lparr>get_id = Some 0, get_name = ''Ann'', get_login = ''ann'',
                get_password = ''pw'', get_email = None, get_address = None\<rparr>])
     NoSessionFile None ''ann'' ''pw''
   = (True,
      Some \<lparr>uid = Some 0, name = ''Ann'', login = ''ann'', password = ''pw'',
            email = None, address = None\<rparr>,
      SessionData (Some 0))
   \<and> init_auth
       (Content [\<lparr>get_id = Some 0, get_name = ''Ann'', get_login = ''ann'',
                  get_password = ''pw'', get_email = None, get_address = None\<rparr>])
       (SessionData (Some 0)) = None
   \<and> \<not> is_authorized None"
  by (simp add: sign_in_def get_by_login_def read_data_Content data_class_def save_session_def
      init_auth_def load_session_def is_authorized_def)

text \<open>
  Claim C8, amended. When the stored ids are pairwise distinct and the id of the user
  who signs in is an integer other than 0, a sign-in with matching credentials
  authenticates that user, whose login is the one given; a service constructed over the
  session file it wrote has the same current user; after the sign-out the service is
  anonymous and a service constructed over the session file it leaves is anonymous.
\<close>

theorem auth_round_trip:
  assumes "get_by_login f l = Some u" and "password u = pw"
    and "uid u = Some n" and "n \<noteq> 0"
    and "distinct (map get_id (read_data f))"
  shows "\<exists>sf'. sign_in f sf current_user l pw = (True, Some u, sf')
           \<and> is_authorized (Some u) \<and> login u = l
           \<and> init_auth f sf' = Some u
           \<and> (\<exists>sf''. sign_out sf' (Some u) = (None, sf'')
                 \<and> \<not> is_authorized None \<and> init_auth f sf'' = None)"
proof -
  let ?sf' = "save_session (Some u)"
  have s: "sign_in f sf current_user l pw = (True, Some u, ?sf')"
    using assms(1,2) by (simp add: sign_in_def)
  from assms(1) obtain r where "find (\<lambda>item. get_login item = l) (read_data f) = Some r"
    and "u = data_class r"
    by (auto simp: get_by_login_def)
  then have lg: "login u = l"
    by (auto simp: find_Some_iff data_class_def)
  have "get_by_id f (uid u) = Some u"
    using assms(5,1) by (rule get_by_id_of_get_by_login)
  with assms(3,4) have again: "init_auth f ?sf' = Some u"
    by (simp add: init_auth_def load_session_def save_session_def)
  have out: "sign_out ?sf' (Some u) = (None, NoSessionFile)"
    by (simp add: sign_out_def clear_session_def)
  have anon: "init_auth f NoSessionFile = None"
    by (simp add: init_auth_def load_session_def)
  from s lg again out anon show ?thesis
    by (simp add: is_authorized_def)
qed

theorem auth_round_trip_witness:
  "get_by_login
     (Content [\<lparr>get_id = Some 1, get_name = ''Maria'', get_login = ''maria'',
                get_password = ''qwerty'', get_email = None, get_address = None\<rparr>,
               \<lparr>get_id = Some 2, get_name = ''Ivan'', get_login = ''ivan'',
                get_password = ''12345'', get_email = None, get_address = None\<rparr>])
     ''ivan''
     = Some \<lparr>uid = Some 2, name = ''Ivan'', login = ''ivan'', password = ''12345'',
             email = None, address = None\<rparr>
   \<and> distinct (map get_id (read_data
       (Content [\<lparr>get_id = Some 1, get_name = ''Maria'', get_login = ''maria'',
                  get_password = ''qwerty'', get_email = None, get_address = None\<rparr>,
                 \<lparr>get_id = Some 2, get_name = ''Ivan'', get_login = ''ivan'',
                  get_password = ''12345'', get_email = None, get_address = None\<rparr>])))
   \<and> (\<exists>sf'. sign_in
         (Content [\<lparr>get_id = Some 1, get_name = ''Maria'', get_login = ''maria'',
                    get_password = ''qwerty'', get_email = None, get_address = None\<rparr>,
                   \<lparr>get_id = Some 2, get_name = ''Ivan'', get_login = ''ivan'',
                    get_password = ''12345'', get_email = None, get_address = None\<rparr>])
         NoSessionFile None ''ivan'' ''12345''
         = (True,
            Some \<lparr>uid = Some 2, name = ''Ivan'', login = ''ivan'', password = ''12345'',
                  email = None, address = None\<rparr>, sf')
       \<and> init_auth
         (Content [\<lparr>get_id = Some 1, get_name = ''Maria'', get_login = ''maria'',
                    get_password = ''qwerty'', get_email = None, get_address = None\<rparr>,
                   \<lparr>get_id = Some 2, get_name = ''Ivan'', get_login = ''ivan'',
                    get_password = ''12345'', get_email = None, get_address = None\<rparr>])
         sf'
         = Some \<lparr>uid = Some 2, name = ''Ivan'', login = ''ivan'', password = ''12345'',
                 email = None, address = None\<rparr>)"
proof -
  let ?f = "Content [\<lparr>get_id = Some 1, get_name = ''Maria'', get_login = ''maria'',
                get_password = ''qwerty'', get_email = None, get_address = None\<rparr>,
               \<lparr>get_id = Some 2, get_name = ''Ivan'', get_login = ''ivan'',
                get_password = ''12345'', get_email = None, get_address = None\<rparr>]"
  let ?u = "\<lparr>uid = Some 2, name = ''Ivan'', login = ''ivan'', password = ''12345'',
             email = None, address = None\<rparr>"
  have h1: "get_by_login ?f ''ivan'' = Some ?u"
    by (simp add: get_by_login_def read_data_Content data_class_def)
  have h2: "password ?u = ''12345''"
    by simp
  have h3: "uid ?u = Some 2"
    by simp
  have h4: "(2::int) \<noteq> 0"
    by simp
  have h5: "distinct (map get_id (read_data ?f))"
    by (simp add: read_data_Content)
  from auth_round_trip [OF h1 h2 h3 h4 h5, of NoSessionFile None] h1 h5 show ?thesis
    by blast
qed

end
